theory Spec2Isabelle
  imports Complex_Main
begin

section \<open>Python values, dictionaries and strings\<close>

text \<open>
  The values a rule dictionary holds: strings (a nexthop, an address, the empty string of
  a block directive), booleans (the \<open>dbr\<close> marker) and lists of strings (upstreams).
\<close>

datatype pyval = Str string | Bool bool | StrList "string list"

text \<open>
  A Python \<open>dict\<close> with string keys, as an association list with one entry for each key, in
  insertion order. \<open>k in d\<close> is \<open>dict_in\<close>, \<open>d[k] = v\<close> is \<open>dict_set\<close> (an existing key
  keeps its place), \<open>del d[k]\<close> is \<open>dict_del\<close> and \<open>d |= e\<close> is \<open>dict_merge\<close>.
  A dictionary is truthy when it is not empty.
\<close>

type_synonym 'v dict = "(string \<times> 'v) list"

definition dict_in :: "string \<Rightarrow> 'v dict \<Rightarrow> bool" where
  "dict_in k d = (map_of d k \<noteq> None)"

fun dict_set :: "string \<Rightarrow> 'v \<Rightarrow> 'v dict \<Rightarrow> 'v dict" where
  "dict_set k v [] = [(k, v)]"
| "dict_set k v (p # ps) = (if fst p = k then (k, v) # ps else p # dict_set k v ps)"

definition dict_del :: "string \<Rightarrow> 'v dict \<Rightarrow> 'v dict" where
  "dict_del k d = filter (\<lambda>p. fst p \<noteq> k) d"

fun dict_merge :: "'v dict \<Rightarrow> 'v dict \<Rightarrow> 'v dict" where
  "dict_merge d [] = d"
| "dict_merge d (p # ps) = dict_merge (dict_set (fst p) (snd p) d) ps"

type_synonym rule_dict = "pyval dict"

text \<open>Truthiness of an optional rule: \<open>None\<close> and the empty dictionary are falsy.\<close>

fun truthy :: "rule_dict option \<Rightarrow> bool" where
  "truthy None = False"
| "truthy (Some d) = (d \<noteq> [])"

text \<open>The dictionary of a truthy optional rule.\<close>

fun dict_of :: "rule_dict option \<Rightarrow> rule_dict" where
  "dict_of None = []"
| "dict_of (Some d) = d"

text \<open>\<open>s.split(c)\<close>: the pieces between the occurrences of \<open>c\<close>; never an empty list.\<close>

fun split_on :: "char \<Rightarrow> string \<Rightarrow> string list" where
  "split_on c [] = [[]]"
| "split_on c (x # xs) =
     (if x = c then [] # split_on c xs
      else (case split_on c xs of
              [] \<Rightarrow> [[x]]
            | w # ws \<Rightarrow> (x # w) # ws))"

text \<open>\<open>domain.split(".")[::-1]\<close>: the labels of a domain, the top-level domain first.\<close>

definition labels_of :: "string \<Rightarrow> string list" where
  "labels_of domain = rev (split_on CHR ''.'' domain)"

datatype error =
    ValueError string
  | KeyError string
  | AttributeError string
  | RecursionError
  | TypeError string
  | IndexError string
  | FormError string
  | PyException string
  | CallbackRaised

section \<open>The domain trie (trie.py)\<close>

text \<open>
  \<open>TrieNode\<close>: the dictionary of children keyed by label, and the optional rule.
\<close>

datatype trie = TrieNode (children: "trie dict") (rule: "rule_dict option")

definition empty_node :: trie where
  "empty_node = TrieNode [] None"

text \<open>
  The nodes of a trie are never shared: \<open>insert\<close> and \<open>cow_insert\<close> create fresh nodes,
  \<open>copy.deepcopy\<close> copies every node. So a node object of the trie under a root is
  identified by the labels on its path from that root; a reference to a node is modelled
  as that path (\<open>node_ref\<close>), and \<open>node.rule = r\<close> as \<open>set_rule_at\<close>.
\<close>

type_synonym node_ref = "string list"

fun node_at :: "node_ref \<Rightarrow> trie \<Rightarrow> trie option" where
  "node_at [] n = Some n"
| "node_at (l # ls) n =
     (case map_of (children n) l of
        None \<Rightarrow> None
      | Some c \<Rightarrow> node_at ls c)"

fun set_rule_at :: "node_ref \<Rightarrow> rule_dict option \<Rightarrow> trie \<Rightarrow> trie" where
  "set_rule_at [] r n = TrieNode (children n) r"
| "set_rule_at (l # ls) r n =
     (case map_of (children n) l of
        None \<Rightarrow> n
      | Some c \<Rightarrow> TrieNode (dict_set l (set_rule_at ls r c) (children n)) (rule n))"

text \<open>
  The loop of \<open>lookup\<close>. Its state is the source's: \<open>current\<close> (with its path),
  \<open>matched_rule\<close>, \<open>wildcard_rule\<close> and \<open>exact_len\<close>; \<open>i\<close> is the index of
  \<open>enumerate\<close>. The loop stops (\<open>break\<close>) at the first label with no child.
\<close>

record lookup_state =
  current :: trie
  current_ref :: node_ref
  matched_rule :: "rule_dict option"
  wildcard_rule :: "rule_dict option"
  exact_len :: nat

fun lookup_loop :: "string list \<Rightarrow> nat \<Rightarrow> lookup_state \<Rightarrow> lookup_state" where
  "lookup_loop [] i st = st"
| "lookup_loop (label # ls) i st =
     (let st1 = (case map_of (children (current st)) ''*'' of
                   Some star \<Rightarrow> st\<lparr>wildcard_rule := rule star\<rparr>
                 | None \<Rightarrow> st)
      in case map_of (children (current st1)) label of
           Some child \<Rightarrow>
             (let st2 = st1\<lparr>current := child, current_ref := current_ref st1 @ [label]\<rparr>;
                  st3 = (if truthy (rule child)
                         then st2\<lparr>matched_rule := rule child, exact_len := i + 1\<rparr>
                         else st2)
              in lookup_loop ls (i + 1) st3)
         | None \<Rightarrow> st1)"

definition lookup_node :: "trie \<Rightarrow> string \<Rightarrow> error + (rule_dict \<times> node_ref)" where
  "lookup_node t domain =
     (if domain = [] then Inl (ValueError ''Domain is empty.'')
      else
        let labels = labels_of domain;
            depth = length labels;
            st = lookup_loop labels 0
                   \<lparr>current = t, current_ref = [], matched_rule = None,
                    wildcard_rule = None, exact_len = 0\<rparr>
        in if truthy (matched_rule st) \<and> depth = exact_len st
           then Inr (dict_of (matched_rule st), current_ref st)
           else if truthy (wildcard_rule st)
           then Inr (dict_of (wildcard_rule st), current_ref st)
           else Inr ([], current_ref st))"

text \<open>The loop of \<open>insert\<close> and of \<open>cow_insert\<close>: create the missing nodes, set the rule.\<close>

fun insert_labels :: "string list \<Rightarrow> rule_dict \<Rightarrow> trie \<Rightarrow> trie" where
  "insert_labels [] r n = TrieNode (children n) (Some r)"
| "insert_labels (l # ls) r n =
     (let child = (case map_of (children n) l of
                     None \<Rightarrow> empty_node
                   | Some c \<Rightarrow> c)
      in TrieNode (dict_set l (insert_labels ls r child) (children n)) (rule n))"

text \<open>\<open>_domain_exits\<close>: the node of the full label path exists and bears a rule.\<close>

definition domain_exits_node :: "trie \<Rightarrow> string \<Rightarrow> bool" where
  "domain_exits_node t domain =
     (case node_at (labels_of domain) t of
        None \<Rightarrow> False
      | Some n \<Rightarrow> rule n \<noteq> None)"

section \<open>The trie object and its store\<close>

text \<open>
  \<open>self.root\<close> is a pointer to the root node. The store maps the address of a root node
  to the trie under it (tries under different roots share no node); \<open>fresh\<close> is the next
  unused address. A reader that has sampled \<open>self.root\<close> holds an address: it sees a
  later assignment to a node under that root, and it does not see a root made afterwards.
  \<open>update_cb\<close> is the registered callback, if any: its arguments are
  \<open>(domain, old_action, new_action, old_value, new_value)\<close>, and its result here is whether
  it returns (\<open>True\<close>) or raises (\<open>False\<close>); what it does to the controller is outside
  the trie.
  \<open>copy_depth\<close> is not a field of the object but a setting of the interpreter: the
  number of trie levels that \<open>copy.deepcopy\<close> can descend before the recursion limit is
  reached (about 160 with the default limit of 1000 frames).
\<close>

type_synonym cb_args = "pyval \<times> string \<times> string \<times> pyval \<times> pyval"

record domain_trie =
  root :: nat
  store :: "nat \<Rightarrow> trie"
  fresh :: nat
  update_cb :: "(cb_args \<Rightarrow> bool) option"
  copy_depth :: nat

definition new_domain_trie :: domain_trie where
  "new_domain_trie =
     \<lparr>root = 0, store = (\<lambda>_. empty_node), fresh = 1, update_cb = None, copy_depth = 160\<rparr>"

definition root_node :: "domain_trie \<Rightarrow> trie" where
  "root_node s = store s (root s)"

definition lookup :: "domain_trie \<Rightarrow> string \<Rightarrow> error + (rule_dict \<times> node_ref)" where
  "lookup s domain = lookup_node (root_node s) domain"

definition domain_exits :: "domain_trie \<Rightarrow> string \<Rightarrow> bool" where
  "domain_exits s domain = domain_exits_node (root_node s) domain"

text \<open>\<open>insert\<close>, for building from the configuration: it changes the live trie in place.\<close>

definition insert_rule :: "domain_trie \<Rightarrow> string \<Rightarrow> rule_dict \<Rightarrow> domain_trie" where
  "insert_rule s domain r =
     s\<lparr>store := (store s)(root s := insert_labels (labels_of domain) r (root_node s))\<rparr>"

text \<open>\<open>purge_trie\<close>: a new, empty root.\<close>

definition purge_trie :: "domain_trie \<Rightarrow> domain_trie" where
  "purge_trie s = s\<lparr>root := fresh s, store := (store s)(fresh s := empty_node),
                     fresh := Suc (fresh s)\<rparr>"

text \<open>
  \<open>copy.deepcopy(self.root)\<close> recurses along the children: it copies a trie of at most
  \<open>copy_depth\<close> levels of nodes and raises \<open>RecursionError\<close> on a deeper one. The copy
  shares no node with the original.
\<close>

fun fits :: "nat \<Rightarrow> trie \<Rightarrow> bool" where
  "fits 0 t = False"
| "fits (Suc n) t = list_all (\<lambda>p. fits n (snd p)) (children t)"

definition deepcopy_root :: "domain_trie \<Rightarrow> error + trie" where
  "deepcopy_root s =
     (if fits (copy_depth s) (root_node s) then Inr (root_node s) else Inl RecursionError)"

text \<open>
  \<open>self.root = new_root\<close>, where \<open>new_root\<close> is the copy after it has been changed to
  \<open>t\<close>: the new root is at a fresh address, the old one is untouched.
\<close>

definition swap_root :: "domain_trie \<Rightarrow> trie \<Rightarrow> domain_trie" where
  "swap_root s t = s\<lparr>root := fresh s, store := (store s)(fresh s := t),
                      fresh := Suc (fresh s)\<rparr>"

text \<open>The call of the update callback in \<open>_cow_update\<close>, when one is registered.\<close>

definition fire_update_cb ::
  "domain_trie \<Rightarrow> rule_dict \<Rightarrow> string \<Rightarrow> string \<Rightarrow> pyval \<Rightarrow> pyval \<Rightarrow> error + unit" where
  "fire_update_cb s existing_rule old_action new_action old_value new_value =
     (case update_cb s of
        None \<Rightarrow> Inr ()
      | Some cb \<Rightarrow>
          (case map_of existing_rule ''domain'' of
             None \<Rightarrow> Inl (KeyError ''domain'')
           | Some domain \<Rightarrow>
               if cb (domain, old_action, new_action, old_value, new_value)
               then Inr () else Inl CallbackRaised))"

text \<open>
  \<open>_cow_update\<close>: copy the existing rule, resolve a block/route conflict (with the
  callback first), merge the new rule over it and assign it to \<open>node\<close>, a node of the live
  trie: the root is not copied and \<open>self.root\<close> is not assigned.
\<close>

definition cow_update ::
  "domain_trie \<Rightarrow> rule_dict \<Rightarrow> rule_dict \<Rightarrow> node_ref \<Rightarrow> error + domain_trie" where
  "cow_update s existing_rule r node =
     (let new_rule = existing_rule;
          assign = (\<lambda>nr. s\<lparr>store := (store s)(root s :=
                      set_rule_at node (Some (dict_merge nr r)) (root_node s))\<rparr>)
      in if dict_in ''block'' existing_rule \<and> dict_in ''route'' r then
           (case fire_update_cb s existing_rule ''block'' ''route'' (Str [])
                   (case map_of r ''route'' of Some v \<Rightarrow> v | None \<Rightarrow> Str []) of
              Inl e \<Rightarrow> Inl e
            | Inr _ \<Rightarrow> Inr (assign (dict_del ''block'' new_rule)))
         else if dict_in ''route'' existing_rule \<and> dict_in ''block'' r then
           (case fire_update_cb s existing_rule ''route'' ''block''
                   (case map_of existing_rule ''route'' of Some v \<Rightarrow> v | None \<Rightarrow> Str [])
                   (Str []) of
              Inl e \<Rightarrow> Inl e
            | Inr _ \<Rightarrow> Inr (assign (dict_del ''route'' new_rule)))
         else Inr (assign new_rule))"

text \<open>
  \<open>cow_insert\<close>: when \<open>lookup\<close> finds a rule for the domain, update through
  \<open>_cow_update\<close> with the rule and the node that \<open>lookup\<close> returned; otherwise copy the
  trie, insert into the copy and swap the root. (A \<open>TrieNode\<close> object is always truthy, so
  \<open>existing_rule and node\<close> tests the rule alone.)
\<close>

definition cow_insert :: "domain_trie \<Rightarrow> string \<Rightarrow> rule_dict \<Rightarrow> error + domain_trie" where
  "cow_insert s domain r =
     (case lookup s domain of
        Inl e \<Rightarrow> Inl e
      | Inr (existing_rule, node) \<Rightarrow>
          if existing_rule \<noteq> [] then cow_update s existing_rule r node
          else (case deepcopy_root s of
                  Inl e \<Rightarrow> Inl e
                | Inr new_root \<Rightarrow>
                    Inr (swap_root s (insert_labels (labels_of domain) r new_root))))"

text \<open>
  \<open>cow_remove\<close>: raise when the domain bears no rule; otherwise work on a copy: remove the
  whole rule (no directive given), or the directive (dropping the rule when only
  \<open>domain\<close> and \<open>dbr\<close> remain), and swap the root; return \<open>False\<close>, with the copy
  dropped, when the rule lacks the directive. The result is what the call returns or
  raises, and the trie object as the call leaves it.
\<close>

definition remaining_keys :: "rule_dict \<Rightarrow> string list" where
  "remaining_keys r = filter (\<lambda>k. k \<noteq> ''domain'' \<and> k \<noteq> ''dbr'') (map fst r)"

definition cow_remove ::
  "domain_trie \<Rightarrow> string \<Rightarrow> string option \<Rightarrow> (error + bool) \<times> domain_trie" where
  "cow_remove s domain directive =
     (if \<not> domain_exits s domain
      then (Inl (PyException (domain @ '' is not found in the trie'')), s)
      else
        case deepcopy_root s of
          Inl e \<Rightarrow> (Inl e, s)
        | Inr new_root \<Rightarrow>
            (let labels = labels_of domain
             in case node_at labels new_root of
                  None \<Rightarrow> (Inr False, s)
                | Some cur \<Rightarrow>
                    (case rule cur of
                       None \<Rightarrow> (Inl (PyException ''rule is not supposed to be None''), s)
                     | Some cur_rule \<Rightarrow>
                         (case directive of
                            None \<Rightarrow> (Inr True, swap_root s (set_rule_at labels None new_root))
                          | Some d \<Rightarrow>
                              if dict_in d cur_rule then
                                (let rule1 = dict_del d cur_rule
                                 in if remaining_keys rule1 = []
                                    then (Inr True,
                                          swap_root s (set_rule_at labels None new_root))
                                    else (Inr True,
                                          swap_root s
                                            (set_rule_at labels (Some rule1) new_root)))
                              else (Inr False, s)))))"

section \<open>Merging the configuration rules (config.py)\<close>

text \<open>
  The inner loop of \<open>_merge_rules\<close>: find the first rule of \<open>config["rules"]\<close> with the
  domain of \<open>r\<close> and merge \<open>r\<close> into it (\<open>|=\<close>), or append \<open>r\<close>.
\<close>

fun merge_rule :: "rule_dict list \<Rightarrow> rule_dict \<Rightarrow> error + rule_dict list" where
  "merge_rule [] r = Inr [r]"
| "merge_rule (existing # rest) r =
     (case (map_of r ''domain'', map_of existing ''domain'') of
        (Some d, Some d') \<Rightarrow>
          if d = d' then Inr (dict_merge existing r # rest)
          else (case merge_rule rest r of
                  Inl e \<Rightarrow> Inl e
                | Inr rest' \<Rightarrow> Inr (existing # rest'))
      | _ \<Rightarrow> Inl (KeyError ''domain''))"

fun merge_all :: "rule_dict list \<Rightarrow> rule_dict list \<Rightarrow> error + rule_dict list" where
  "merge_all rules [] = Inr rules"
| "merge_all rules (r # rs) =
     (case merge_rule rules r of
        Inl e \<Rightarrow> Inl e
      | Inr rules' \<Rightarrow> merge_all rules' rs)"

text \<open>
  \<open>_merge_rules\<close>, from \<open>config["rules"]\<close> and the four lists the line parsers fill; the
  result is the new \<open>config["rules"]\<close>.
\<close>

definition merge_rules ::
  "rule_dict list \<Rightarrow> rule_dict list \<Rightarrow> rule_dict list \<Rightarrow> rule_dict list \<Rightarrow> rule_dict list
     \<Rightarrow> error + rule_dict list" where
  "merge_rules rules server_rule static_rule block_rule route_rule =
     merge_all rules (server_rule @ static_rule @ block_rule @ route_rule)"

text \<open>
  \<open>build_domain_trie\<close> (forward.py): insert every rule under its domain, in place. The
  result is the trie as the loop left it, and the exception that ended it, if any.
\<close>

fun build_domain_trie :: "domain_trie \<Rightarrow> rule_dict list \<Rightarrow> domain_trie \<times> error option" where
  "build_domain_trie s [] = (s, None)"
| "build_domain_trie s (r # rs) =
     (case map_of r ''domain'' of
        None \<Rightarrow> (s, Some (KeyError ''domain''))
      | Some (Str domain) \<Rightarrow> build_domain_trie (insert_rule s domain r) rs
      | Some _ \<Rightarrow> (s, Some (AttributeError ''split'')))"

section \<open>DNS messages, as the forwarder uses them (dnspython)\<close>

text \<open>
  A message carries its id, the QR flag (\<open>is_response\<close>), the rcode, the question section
  and the answer section. An rrset has a type, a TTL and its records; for an A rrset the
  records are addresses. Serialising a message and parsing it back gives the message.
\<close>

datatype rcode = NOERROR | SERVFAIL | NXDOMAIN | OtherRcode nat

record rrset =
  rdtype :: nat
  ttl :: int
  records :: "string list"

record question =
  name_text :: string
  qtype :: nat

record message =
  msg_id :: nat
  is_response :: bool
  rcode :: rcode
  questions :: "question list"
  answer :: "rrset list"

definition rdatatype_A :: nat where
  "rdatatype_A = 1"

definition rdatatype_AAAA :: nat where
  "rdatatype_AAAA = 28"

text \<open>
  \<open>dns.message.make_response(query)\<close>: a NOERROR response with the id and the question of
  the query and no answer; it raises \<open>FormError\<close> when the query is itself a response.
\<close>

definition make_response :: "message \<Rightarrow> error + message" where
  "make_response query =
     (if is_response query then Inl (FormError ''specified query message is not a query'')
      else Inr \<lparr>msg_id = msg_id query, is_response = True, rcode = NOERROR,
                questions = questions query, answer = []\<rparr>)"

text \<open>\<open>make_NXDOMAIN_response\<close> (forward.py).\<close>

definition make_NXDOMAIN_response :: "message \<Rightarrow> error + message" where
  "make_NXDOMAIN_response query =
     (case make_response query of
        Inl e \<Rightarrow> Inl e
      | Inr resp \<Rightarrow> Inr (resp\<lparr>rcode := NXDOMAIN\<rparr>))"

section \<open>The response cache\<close>

text \<open>
  Modelled from the spec: the cache is a \<open>TLRUCache\<close> of the cachetools library, which is
  not part of the repository. Section 4.2 of the specification: a bounded map from
  \<open>(name, qtype)\<close> to a value with a deadline; \<open>get\<close> returns the entry only if its
  deadline has not passed, and an expired entry is evicted on access; \<open>put\<close> sets the
  deadline with the time-to-use function; entries whose deadline has passed are evicted
  first, then the least recently used.
  The items are kept from the least to the most recently used, with their deadlines. The
  time-to-use function is \<open>_my_ttu\<close> of forward.py; the value is the pair of the response
  and its TTL. The clock is a real number of seconds.
\<close>

type_synonym cache_key = "string \<times> nat"

type_synonym cache_value = "message \<times> int"

record tlru_cache =
  maxsize :: nat
  items :: "(cache_key \<times> cache_value \<times> real) list"

text \<open>\<open>_my_ttu\<close> (forward.py): \<open>now + value[1]\<close>.\<close>

definition my_ttu :: "cache_key \<Rightarrow> cache_value \<Rightarrow> real \<Rightarrow> real" where
  "my_ttu key val now = now + real_of_int (snd val)"

definition drop_key :: "cache_key \<Rightarrow> (cache_key \<times> 'a) list \<Rightarrow> (cache_key \<times> 'a) list" where
  "drop_key key xs = filter (\<lambda>p. fst p \<noteq> key) xs"

text \<open>\<open>cache.get(key)\<close>: the value and the cache after the access.\<close>

definition cache_get :: "tlru_cache \<Rightarrow> cache_key \<Rightarrow> real \<Rightarrow> cache_value option \<times> tlru_cache" where
  "cache_get c key now =
     (case map_of (items c) key of
        None \<Rightarrow> (None, c)
      | Some (val, expires) \<Rightarrow>
          if now < expires
          then (Some val, c\<lparr>items := drop_key key (items c) @ [(key, val, expires)]\<rparr>)
          else (None, c\<lparr>items := drop_key key (items c)\<rparr>))"

text \<open>
  \<open>cache[key] = value\<close>: an item that would be expired at once is not stored; otherwise
  the expired items and the old item of the key go, then the least recently used items
  until there is room, and the item is stored as the most recently used.
\<close>

definition cache_set :: "tlru_cache \<Rightarrow> cache_key \<Rightarrow> cache_value \<Rightarrow> real \<Rightarrow> tlru_cache" where
  "cache_set c key val now =
     (let expires = my_ttu key val now
      in if \<not> now < expires \<or> maxsize c = 0 then c
         else
           let live = filter (\<lambda>p. now < snd (snd p)) (drop_key key (items c));
               kept = drop (Suc (length live) - maxsize c) live
           in c\<lparr>items := kept @ [(key, val, expires)]\<rparr>)"

text \<open>\<open>del cache[key]\<close> of a key that is in the cache.\<close>

definition cache_del :: "tlru_cache \<Rightarrow> cache_key \<Rightarrow> tlru_cache" where
  "cache_del c key = c\<lparr>items := drop_key key (items c)\<rparr>"

section \<open>The DNS forwarder (forward.py)\<close>

text \<open>
  The fields of \<open>DNSForwarder\<close> that the request path uses. \<open>response_cb\<close> is the
  registered callback, if any; its result here is whether it returns or raises.
\<close>

record dns_forwarder =
  upstreams :: "string list"
  cache_ttl :: int
  cache :: tlru_cache
  trie_of :: domain_trie
  response_cb :: "(rule_dict \<times> string list \<Rightarrow> bool) option"

definition MAX_DNS_TTL :: int where
  "MAX_DNS_TTL = 2147483647"

text \<open>
  \<open>DNSForwarder.__init__\<close> with the defaults the engine uses: a cache of 10000 entries,
  a default cache TTL of 900 seconds, an empty trie and no callback.
\<close>

definition new_forwarder :: "string list \<Rightarrow> dns_forwarder" where
  "new_forwarder ups =
     \<lparr>upstreams = ups, cache_ttl = 900, cache = \<lparr>maxsize = 10000, items = []\<rparr>,
      trie_of = new_domain_trie, response_cb = None\<rparr>"

text \<open>
  The loop of \<open>_add_cache\<close> over the answer rrsets: an A rrset with a TTL greater than
  the running \<open>ttl\<close> replaces it.
\<close>

fun ttl_loop :: "rrset list \<Rightarrow> int \<Rightarrow> int" where
  "ttl_loop [] t = t"
| "ttl_loop (rs # rest) t =
     ttl_loop rest (if rdtype rs = rdatatype_A \<and> ttl rs > t then ttl rs else t)"

text \<open>
  \<open>_add_cache(qname, qtype, response, ttl)\<close>: nothing for a response that is not
  NOERROR; with \<open>ttl = -1\<close> (the default) the TTL starts from \<open>cache_ttl\<close> and the loop
  runs; then the pair of the response and the TTL is stored.
\<close>

definition add_cache ::
  "dns_forwarder \<Rightarrow> string \<Rightarrow> nat \<Rightarrow> message \<Rightarrow> int \<Rightarrow> real \<Rightarrow> dns_forwarder" where
  "add_cache f qname qt response t now =
     (if rcode response \<noteq> NOERROR then f
      else
        let t' = (if t = - 1 then ttl_loop (answer response) (cache_ttl f) else t)
        in f\<lparr>cache := cache_set (cache f) (qname, qt) (response, t') now\<rparr>)"

text \<open>
  \<open>_forward_query\<close>: the upstreams in order; \<open>net upstream\<close> is the answer of an upstream
  to the query, or \<open>None\<close> when the query to it times out or fails. When all fail, a
  SERVFAIL response is made.
\<close>

fun forward_query :: "(string \<Rightarrow> message option) \<Rightarrow> message \<Rightarrow> string list \<Rightarrow> error + message" where
  "forward_query net query [] =
     (case make_response query of
        Inl e \<Rightarrow> Inl e
      | Inr response \<Rightarrow> Inr (response\<lparr>rcode := SERVFAIL\<rparr>))"
| "forward_query net query (upstream # rest) =
     (case net upstream of
        Some response \<Rightarrow> Inr response
      | None \<Rightarrow> forward_query net query rest)"

text \<open>\<open>_extract_A_records\<close>: the addresses of the A rrsets of the answer.\<close>

definition extract_A_records :: "message \<Rightarrow> string list" where
  "extract_A_records resp =
     concat (map records (filter (\<lambda>rs. rdtype rs = rdatatype_A) (answer resp)))"

text \<open>
  \<open>rule.get("upstream", self.upstreams)\<close>, as the list that \<open>_forward_query\<close> iterates:
  a string iterates over its characters, a boolean is not iterable.
\<close>

definition upstreams_for :: "dns_forwarder \<Rightarrow> rule_dict \<Rightarrow> error + string list" where
  "upstreams_for f r =
     (case map_of r ''upstream'' of
        None \<Rightarrow> Inr (upstreams f)
      | Some (StrList us) \<Rightarrow> Inr us
      | Some (Str u) \<Rightarrow> Inr (map (\<lambda>c. [c]) u)
      | Some (Bool b) \<Rightarrow> Inl (TypeError ''bool object is not iterable''))"

text \<open>\<open>qname.endswith(".")\<close> and \<open>qname[:-1]\<close>.\<close>

definition strip_dot :: "string \<Rightarrow> string" where
  "strip_dot qname = (if qname \<noteq> [] \<and> last qname = CHR ''.'' then butlast qname else qname)"

text \<open>
  What a call of \<open>handle_request\<close> does: the datagrams sent to the client with
  \<open>transport.sendto\<close>, in order; the forwarder afterwards; the calls of the response
  callback; and the exception that ended the call, if any.
\<close>

record outcome =
  sent :: "message list"
  forwarder_after :: dns_forwarder
  cb_calls :: "(rule_dict \<times> string list) list"
  raised :: "error option"

text \<open>The part of \<open>handle_request\<close> after the cache: block, forward, cache, callback, reply.\<close>

definition resolve_and_reply ::
  "dns_forwarder \<Rightarrow> message \<Rightarrow> string \<Rightarrow> nat \<Rightarrow> rule_dict \<Rightarrow> (string \<Rightarrow> message option) \<Rightarrow> real
     \<Rightarrow> outcome" where
  "resolve_and_reply f query qname qt r net now =
     (case (if dict_in ''block'' r
            then (case make_NXDOMAIN_response query of
                    Inl e \<Rightarrow> Inl e
                  | Inr nx_resp \<Rightarrow> Inr [nx_resp])
            else Inr []) of
        Inl e \<Rightarrow> \<lparr>sent = [], forwarder_after = f, cb_calls = [], raised = Some e\<rparr>
      | Inr sent1 \<Rightarrow>
          (case upstreams_for f r of
             Inl e \<Rightarrow> \<lparr>sent = sent1, forwarder_after = f, cb_calls = [], raised = Some e\<rparr>
           | Inr upstream \<Rightarrow>
               (case forward_query net query upstream of
                  Inl e \<Rightarrow>
                    \<lparr>sent = sent1, forwarder_after = f, cb_calls = [], raised = Some e\<rparr>
                | Inr resp \<Rightarrow>
                    (let f2 = add_cache f qname qt resp (- 1) now;
                         ips = extract_A_records resp
                     in if dict_in ''dbr'' r then
                          (case response_cb f of
                             None \<Rightarrow>
                               \<lparr>sent = sent1, forwarder_after = f2, cb_calls = [],
                                raised = Some (PyException ''No policy engine registered'')\<rparr>
                           | Some cb \<Rightarrow>
                               if cb (r, ips)
                               then \<lparr>sent = sent1 @ (if dict_in ''block'' r then [] else [resp]),
                                     forwarder_after = f2, cb_calls = [(r, ips)],
                                     raised = None\<rparr>
                               else \<lparr>sent = sent1, forwarder_after = f2,
                                     cb_calls = [(r, ips)], raised = Some CallbackRaised\<rparr>)
                        else \<lparr>sent = sent1 @ (if dict_in ''block'' r then [] else [resp]),
                              forwarder_after = f2, cb_calls = [], raised = None\<rparr>))))"

text \<open>
  \<open>handle_request\<close>. \<open>parsed\<close> is the result of \<open>dns.message.from_wire(data)\<close>, \<open>None\<close>
  when it raises. The rule is looked up, an AAAA query is answered with an empty response,
  a cache hit is sent unless the rule blocks, and the rest is \<open>resolve_and_reply\<close>.
\<close>

definition handle_request ::
  "dns_forwarder \<Rightarrow> message option \<Rightarrow> (string \<Rightarrow> message option) \<Rightarrow> real \<Rightarrow> outcome" where
  "handle_request f parsed net now =
     (let fail = (\<lambda>e. \<lparr>sent = [], forwarder_after = f, cb_calls = [], raised = Some e\<rparr>)
      in case parsed of
           None \<Rightarrow> fail (FormError ''from_wire'')
         | Some query \<Rightarrow>
             (case questions query of
                [] \<Rightarrow> fail (IndexError ''list index out of range'')
              | q # _ \<Rightarrow>
                  (let qname = strip_dot (name_text q);
                       qt = qtype q
                   in case lookup (trie_of f) qname of
                        Inl e \<Rightarrow> fail e
                      | Inr (r, _) \<Rightarrow>
                          if qt = rdatatype_AAAA then
                            (case make_response query of
                               Inl e \<Rightarrow> fail e
                             | Inr empty_resp \<Rightarrow>
                                 \<lparr>sent = [empty_resp], forwarder_after = f, cb_calls = [],
                                  raised = None\<rparr>)
                          else
                            (case cache_get (cache f) (qname, qt) now of
                               (Some cached_resp, c1) \<Rightarrow>
                                 if \<not> dict_in ''block'' r
                                 then \<lparr>sent = [(fst cached_resp)\<lparr>msg_id := msg_id query\<rparr>],
                                       forwarder_after = f\<lparr>cache := c1\<rparr>, cb_calls = [],
                                       raised = None\<rparr>
                                 else resolve_and_reply (f\<lparr>cache := c1\<rparr>) query qname qt r net now
                             | (None, c1) \<Rightarrow>
                                 resolve_and_reply (f\<lparr>cache := c1\<rparr>) query qname qt r net now))))"

text \<open>
  \<open>purge_cache\<close>. The cache is a \<open>TLRUCache\<close>, not a plain dictionary: the iteration
  of \<open>self.cache.items()\<close> goes over the cache's own list of items, and
  \<open>del self.cache[key]\<close> marks the item of the key as removed in that list and does not
  restructure it, so the loop goes on after a deletion. An item is yielded when it is
  reached if it is still in the cache and its deadline has not passed. The clock is taken
  as fixed while the loop runs.

  \<open>purged\<close>: the loop body deletes the item of the key; it is in the cache, not
  expired and not pinned.
\<close>

definition purged :: "tlru_cache \<Rightarrow> real \<Rightarrow> cache_key \<Rightarrow> bool" where
  "purged c now key =
     (case map_of (items c) key of
        None \<Rightarrow> False
      | Some (val, expires) \<Rightarrow> now < expires \<and> snd val \<noteq> MAX_DNS_TTL)"

fun purge_loop :: "cache_key list \<Rightarrow> tlru_cache \<Rightarrow> real \<Rightarrow> tlru_cache" where
  "purge_loop [] c now = c"
| "purge_loop (key # rest) c now =
     (case map_of (items c) key of
        None \<Rightarrow> purge_loop rest c now
      | Some (val, expires) \<Rightarrow>
          if now < expires \<and> snd val \<noteq> MAX_DNS_TTL
          then purge_loop rest (cache_del c key) now
          else purge_loop rest c now)"

definition purge_cache :: "dns_forwarder \<Rightarrow> real \<Rightarrow> dns_forwarder" where
  "purge_cache f now = f\<lparr>cache := purge_loop (map fst (items (cache f))) (cache f) now\<rparr>"

section \<open>IP address literals (the ipaddress module of the standard library)\<close>

text \<open>
  \<open>ipaddress.ip_address(s)\<close> for a string: it tries \<open>IPv4Address(s)\<close> and then
  \<open>IPv6Address(s)\<close>, and raises \<open>ValueError\<close> when both refuse. The definitions follow the
  parsers of the module (\<open>_parse_octet\<close>, \<open>_ip_int_from_string\<close>, \<open>_parse_hextet\<close>,
  \<open>_split_scope_id\<close>); they decide whether the string is accepted, and for an IPv4 string
  they give the four octets.
\<close>

definition is_digit :: "char \<Rightarrow> bool" where
  "is_digit c = (c \<in> set ''0123456789'')"

definition digit_value :: "char \<Rightarrow> nat" where
  "digit_value c = length (takeWhile (\<lambda>d. d \<noteq> c) ''0123456789'')"

definition decimal_value :: "string \<Rightarrow> nat" where
  "decimal_value s = foldl (\<lambda>n c. 10 * n + digit_value c) 0 s"

text \<open>\<open>_parse_octet\<close>: one to three ASCII digits, no leading zero, at most 255.\<close>

definition parse_octet :: "string \<Rightarrow> nat option" where
  "parse_octet octet_str =
     (if octet_str = [] then None
      else if \<not> list_all is_digit octet_str then None
      else if length octet_str > 3 then None
      else if octet_str \<noteq> ''0'' \<and> hd octet_str = CHR ''0'' then None
      else if decimal_value octet_str > 255 then None
      else Some (decimal_value octet_str))"

text \<open>\<open>IPv4Address(s)\<close>: the four octets, or \<open>None\<close> when it raises.\<close>

definition ipv4_octets :: "string \<Rightarrow> nat list option" where
  "ipv4_octets s =
     (if CHR ''/'' \<in> set s then None
      else if s = [] then None
      else
        let octets = split_on CHR ''.'' s
        in if length octets \<noteq> 4 then None
           else if list_all (\<lambda>oc. parse_octet oc \<noteq> None) octets
           then Some (map (\<lambda>oc. case parse_octet oc of Some v \<Rightarrow> v | None \<Rightarrow> 0) octets)
           else None)"

definition ipv4_ok :: "string \<Rightarrow> bool" where
  "ipv4_ok s = (ipv4_octets s \<noteq> None)"

text \<open>\<open>'%x' % n\<close> for \<open>n\<close> below 65536.\<close>

definition hex_x :: "nat \<Rightarrow> string" where
  "hex_x n =
     (let ds = map (\<lambda>v. ''0123456789abcdef'' ! v)
                 [n div 4096 mod 16, n div 256 mod 16, n div 16 mod 16, n mod 16];
          stripped = dropWhile (\<lambda>c. c = CHR ''0'') ds
      in if stripped = [] then ''0'' else stripped)"

text \<open>\<open>_parse_hextet\<close>: one to four hexadecimal digits (the empty string fails in \<open>int\<close>).\<close>

definition hextet_ok :: "string \<Rightarrow> bool" where
  "hextet_ok hextet_str =
     (list_all (\<lambda>c. c \<in> set ''0123456789ABCDEFabcdef'') hextet_str \<and>
      \<not> length hextet_str > 4 \<and> hextet_str \<noteq> [])"

text \<open>
  \<open>_split_scope_id\<close>: the address before the first \<open>%\<close>, or \<open>None\<close> when the scope id is
  empty or contains another \<open>%\<close>.
\<close>

definition split_scope_id :: "string \<Rightarrow> string option" where
  "split_scope_id ip_str =
     (if CHR ''%'' \<notin> set ip_str then Some ip_str
      else
        let addr = takeWhile (\<lambda>c. c \<noteq> CHR ''%'') ip_str;
            scope_id = tl (dropWhile (\<lambda>c. c \<noteq> CHR ''%'') ip_str)
        in if scope_id = [] \<or> CHR ''%'' \<in> set scope_id then None else Some addr)"

text \<open>
  The parts after an IPv4-style suffix has been replaced by its two hextets, or \<open>None\<close>
  when the suffix is not an IPv4 address.
\<close>

definition expand_v4_suffix :: "string list \<Rightarrow> string list option" where
  "expand_v4_suffix parts =
     (if CHR ''.'' \<in> set (last parts) then
        (case ipv4_octets (last parts) of
           Some [a, b, c, d] \<Rightarrow> Some (butlast parts @ [hex_x (a * 256 + b), hex_x (c * 256 + d)])
         | _ \<Rightarrow> None)
      else Some parts)"

text \<open>
  The rest of \<open>_ip_int_from_string\<close> of IPv6: at most nine parts; at most one empty part
  strictly inside (the \<open>::\<close>); the numbers of parts before and after it; an empty first or
  last part only as part of \<open>::\<close>; then every part that is read must be a hextet.
\<close>

definition hextets_ok :: "string list \<Rightarrow> bool" where
  "hextets_ok parts =
     (if length parts > 9 then False
      else
        case filter (\<lambda>i. parts ! i = []) [1 ..< length parts - 1] of
          [] \<Rightarrow>
            length parts = 8 \<and> hd parts \<noteq> [] \<and> last parts \<noteq> [] \<and> list_all hextet_ok parts
        | [skip_index] \<Rightarrow>
            (let parts_hi = (if hd parts = [] then skip_index - 1 else skip_index);
                 lo0 = length parts - skip_index - 1;
                 parts_lo = (if last parts = [] then lo0 - 1 else lo0)
             in \<not> (hd parts = [] \<and> parts_hi \<noteq> 0) \<and>
                \<not> (last parts = [] \<and> parts_lo \<noteq> 0) \<and>
                parts_hi + parts_lo < 8 \<and>
                list_all hextet_ok (take parts_hi parts) \<and>
                list_all hextet_ok (drop (length parts - parts_lo) parts))
        | _ \<Rightarrow> False)"

text \<open>\<open>IPv6Address(s)\<close> is accepted.\<close>

definition ipv6_ok :: "string \<Rightarrow> bool" where
  "ipv6_ok s =
     (if CHR ''/'' \<in> set s then False
      else
        case split_scope_id s of
          None \<Rightarrow> False
        | Some addr \<Rightarrow>
            if addr = [] then False
            else
              let parts = split_on CHR '':'' addr
              in if length parts < 3 then False
                 else (case expand_v4_suffix parts of
                         None \<Rightarrow> False
                       | Some parts' \<Rightarrow> hextets_ok parts'))"

section \<open>The policy service (policy_service.py)\<close>

text \<open>\<open>_is_valid_ip\<close>: \<open>ip_address\<close> returns, or its \<open>ValueError\<close> is caught.\<close>

definition is_valid_ip :: "string \<Rightarrow> bool" where
  "is_valid_ip ip = (ipv4_ok ip \<or> ipv6_ok ip)"

text \<open>\<open>c.isalnum()\<close> for an ASCII character.\<close>

definition isalnum :: "char \<Rightarrow> bool" where
  "isalnum c =
     (c \<in> set ''0123456789abcdefghijklmnopqrstuvwxyzABCDEFGHIJKLMNOPQRSTUVWXYZ'')"

text \<open>\<open>_is_valid_domain\<close>, for a domain of ASCII characters.\<close>

definition label_ok :: "string \<Rightarrow> bool" where
  "label_ok label =
     (\<not> (label = [] \<or> length label > 63) \<and>
      list_all (\<lambda>c. isalnum c \<or> c = CHR ''-'') label \<and>
      \<not> (hd label = CHR ''-'' \<or> last label = CHR ''-''))"

definition is_valid_domain :: "string \<Rightarrow> bool" where
  "is_valid_domain domain =
     (if length domain > 253 then False
      else
        let domain' = (if take 2 domain = ''*.'' then drop 2 domain else domain)
        in list_all label_ok (split_on CHR ''.'' domain'))"

text \<open>\<open>_validate_rule_params\<close>.\<close>

definition validate_rule_params :: "string \<Rightarrow> string \<Rightarrow> string \<Rightarrow> bool" where
  "validate_rule_params directive domain val =
     (if domain = [] \<or> \<not> is_valid_domain domain then False
      else if directive \<notin> set [''block'', ''route'', ''server'', ''address''] then False
      else if directive = ''block'' then True
      else is_valid_ip val)"

text \<open>\<open>_create_rule_dict\<close>, for a string value.\<close>

definition create_rule_dict :: "string \<Rightarrow> string \<Rightarrow> string \<Rightarrow> rule_dict" where
  "create_rule_dict directive domain val =
     (let r = [(''domain'', Str domain)]
      in if directive = ''block''
         then dict_set ''dbr'' (Bool True) (dict_set ''block'' (Str []) r)
         else if directive = ''route''
         then dict_set ''dbr'' (Bool True) (dict_set ''route'' (Str val) r)
         else if directive = ''server'' then dict_set ''upstream'' (StrList [val]) r
         else if directive = ''address'' then dict_set ''address'' (Str val) r
         else r)"

text \<open>
  \<open>add_rule\<close>: \<open>False\<close> when the parameters do not validate; otherwise the rule is made
  and inserted with \<open>cow_insert\<close>, and the result is \<open>True\<close>. The result here is what the
  call returns or raises, and the trie afterwards. For an address rule \<open>add_rule\<close> then
  calls \<open>add_static_cache\<close>, which changes the cache only and catches its own exceptions;
  that call is not part of this definition.
\<close>

definition add_rule ::
  "domain_trie \<Rightarrow> string \<Rightarrow> string \<Rightarrow> string \<Rightarrow> (error + bool) \<times> domain_trie" where
  "add_rule s directive domain val =
     (if \<not> validate_rule_params directive domain val then (Inr False, s)
      else
        case cow_insert s domain (create_rule_dict directive domain val) of
          Inl e \<Rightarrow> (Inl e, s)
        | Inr s' \<Rightarrow> (Inr True, s'))"

section \<open>The lookup precedence in the words of the specification\<close>

text \<open>
  The rule stored at exactly the full label path of the query, if there is one.
\<close>

definition exact_rule :: "trie \<Rightarrow> string \<Rightarrow> rule_dict option" where
  "exact_rule t domain =
     (case node_at (labels_of domain) t of
        None \<Rightarrow> None
      | Some n \<Rightarrow> rule n)"

text \<open>
  The wildcard candidates: the rules of the \<open>*\<close> children of the nodes visited while the
  labels are followed from the root, the shallowest first. A \<open>*\<close> child without a rule
  contributes no candidate.
\<close>

fun wildcard_candidates :: "string list \<Rightarrow> trie \<Rightarrow> rule_dict list" where
  "wildcard_candidates [] n = []"
| "wildcard_candidates (l # ls) n =
     (case map_of (children n) ''*'' of
        None \<Rightarrow> []
      | Some star \<Rightarrow> (case rule star of None \<Rightarrow> [] | Some r \<Rightarrow> [r]))
     @ (case map_of (children n) l of
          None \<Rightarrow> []
        | Some c \<Rightarrow> wildcard_candidates ls c)"

text \<open>
  The precedence of section 4.1: the exact rule; otherwise the deepest wildcard candidate;
  otherwise the empty rule.
\<close>

definition spec_lookup :: "trie \<Rightarrow> string \<Rightarrow> rule_dict" where
  "spec_lookup t domain =
     (case exact_rule t domain of
        Some r \<Rightarrow> r
      | None \<Rightarrow>
          (case wildcard_candidates (labels_of domain) t of
             [] \<Rightarrow> []
           | c # cs \<Rightarrow> last (c # cs)))"



section \<open>Example rules and tries\<close>

definition block_rule_for :: "string \<Rightarrow> rule_dict" where
  "block_rule_for domain = [(''domain'', Str domain), (''block'', Str []), (''dbr'', Bool True)]"

definition route_rule_for :: "string \<Rightarrow> string \<Rightarrow> rule_dict" where
  "route_rule_for domain gw = [(''domain'', Str domain), (''route'', Str gw), (''dbr'', Bool True)]"

text \<open>
  A trie built at startup with \<open>block=/*.level.com/\<close> and
  \<open>route=/*.multi.level.com/10.0.0.1\<close>.
\<close>

definition level_trie :: domain_trie where
  "level_trie =
     insert_rule
       (insert_rule new_domain_trie ''*.level.com'' (block_rule_for ''*.level.com''))
       ''*.multi.level.com'' (route_rule_for ''*.multi.level.com'' ''10.0.0.1'')"

text \<open>A trie built at startup with \<open>block=/*.example.com/\<close>.\<close>

definition wildcard_trie :: domain_trie where
  "wildcard_trie =
     insert_rule new_domain_trie ''*.example.com'' (block_rule_for ''*.example.com'')"

text \<open>A trie built at startup with \<open>block=/x.com/\<close>.\<close>

definition x_trie :: domain_trie where
  "x_trie = insert_rule new_domain_trie ''x.com'' (block_rule_for ''x.com'')"

text \<open>An A query for a name, and an upstream answer with two A rrsets of TTLs 60 and 300.\<close>

definition a_query :: "string \<Rightarrow> message" where
  "a_query qname =
     \<lparr>msg_id = 4660, is_response = False, rcode = NOERROR,
      questions = [\<lparr>name_text = qname, qtype = rdatatype_A\<rparr>], answer = []\<rparr>"

definition two_rrsets :: message where
  "two_rrsets =
     \<lparr>msg_id = 4660, is_response = True, rcode = NOERROR,
      questions = [\<lparr>name_text = ''example.com.'', qtype = rdatatype_A\<rparr>],
      answer = [\<lparr>rdtype = rdatatype_A, ttl = 60, records = [''192.0.2.1'']\<rparr>,
                \<lparr>rdtype = rdatatype_A, ttl = 300, records = [''192.0.2.2'']\<rparr>]\<rparr>"

text \<open>
  A forwarder that blocks \<open>x.com\<close>, with a callback registered and with an answer for
  \<open>x.com\<close> in the cache (stored at time 1000, so that it expires at 1900).
\<close>

definition x_answer :: message where
  "x_answer =
     \<lparr>msg_id = 7, is_response = True, rcode = NOERROR,
      questions = [\<lparr>name_text = ''x.com.'', qtype = rdatatype_A\<rparr>],
      answer = [\<lparr>rdtype = rdatatype_A, ttl = 60, records = [''1.2.3.4'']\<rparr>]\<rparr>"

definition blocking_forwarder :: dns_forwarder where
  "blocking_forwarder =
     (new_forwarder [''8.8.8.8''])
       \<lparr>cache := \<lparr>maxsize = 10000,
                  items = [((''x.com'', rdatatype_A), (x_answer, 900), 1900)]\<rparr>,
        trie_of := x_trie,
        response_cb := Some (\<lambda>call. True)\<rparr>"

text \<open>
  A forwarder whose cache holds, since time 1000, a pinned entry for \<open>router.my\<close> (stored
  with the sentinel TTL, as \<open>add_static_cache\<close> does) and a dynamic entry for \<open>x.com\<close>.
\<close>

definition mixed_forwarder :: dns_forwarder where
  "mixed_forwarder =
     add_cache
       (add_cache (new_forwarder [''8.8.8.8'']) ''router.my'' rdatatype_A x_answer
          MAX_DNS_TTL 1000)
       ''x.com'' rdatatype_A x_answer (- 1) 1000"

section \<open>Properties of the domain trie\<close>

lemmas trie_defs =
  cow_remove_def cow_insert_def cow_update_def fire_update_cb_def insert_rule_def
  new_domain_trie_def labels_of_def root_node_def domain_exits_def domain_exits_node_def
  empty_node_def swap_root_def lookup_def lookup_node_def block_rule_for_def
  route_rule_for_def dict_in_def dict_del_def deepcopy_root_def

text \<open>
  C1. The precedence of \<open>lookup\<close> fails after a wildcard rule has been removed:
  \<open>cow_remove\<close> of \<open>*.multi.level.com\<close> leaves its \<open>*\<close> node in the trie without a
  rule. For \<open>test.multi.level.com\<close> the wildcard rule of \<open>*.level.com\<close> was seen on the
  path and is the deepest wildcard rule there, so the precedence of the specification
  gives that rule; \<open>lookup\<close> returns the empty rule, because the rule-less \<open>*\<close> node
  overwrites the candidate.
\<close>

theorem lookup_removed_wildcard_shadows:
  "(case cow_remove level_trie ''*.multi.level.com'' None of
      (Inl e, s) \<Rightarrow> None
    | (Inr found, s) \<Rightarrow>
        Some (found, map_sum id fst (lookup s ''test.multi.level.com''),
              spec_lookup (root_node s) ''test.multi.level.com''))
   = Some (True, Inr [], block_rule_for ''*.level.com'')"
  by (simp add: trie_defs level_trie_def spec_lookup_def exact_rule_def eval_nat_numeral)

text \<open>
  C7. The round trip fails under a wildcard: with \<open>*.example.com\<close> blocked,
  \<open>cow_insert\<close> of a route rule for \<open>api.example.com\<close> takes the update path with the
  wildcard rule and the node where the traversal stopped (\<open>example.com\<close>). The merged
  rule is stored at \<open>example.com\<close>; \<open>lookup\<close> of \<open>api.example.com\<close> still returns the
  wildcard block rule, and \<open>example.com\<close> now answers with the route rule.
\<close>

theorem cow_insert_under_wildcard_misplaced:
  "(case cow_insert wildcard_trie ''api.example.com''
           (route_rule_for ''api.example.com'' ''10.0.0.1'') of
      Inl e \<Rightarrow> None
    | Inr s \<Rightarrow>
        Some (map_sum id fst (lookup s ''api.example.com''),
              map_sum id fst (lookup s ''example.com''),
              domain_exits s ''api.example.com''))
   = Some (Inr (block_rule_for ''*.example.com''),
           Inr [(''domain'', Str ''api.example.com''), (''dbr'', Bool True),
                (''route'', Str ''10.0.0.1'')],
           False)"
  by (simp add: trie_defs wildcard_trie_def)

text \<open>
  C8, as stated, fails: for a domain that is not in the trie \<open>cow_remove\<close> raises; it
  does not return \<open>False\<close>.
\<close>

theorem cow_remove_absent_counterexample:
  "exact_rule (root_node x_trie) ''y.com'' = None \<and>
   fst (cow_remove x_trie ''y.com'' None) \<noteq> Inr False \<and>
   fst (cow_remove x_trie ''y.com'' None)
     = Inl (PyException ''y.com is not found in the trie'')"
  by (simp add: trie_defs x_trie_def exact_rule_def)

text \<open>
  C8, amended. For every domain with no rule stored at its label path (the path is
  missing, or its node bears no rule), and every directive or none, \<open>cow_remove\<close> raises
  the exception "<domain> is not found in the trie", and the trie object is left as it
  was: the same root pointer and the same store.
\<close>

theorem cow_remove_absent_raises:
  "exact_rule (root_node s) domain = None \<Longrightarrow>
   cow_remove s domain directive
     = (Inl (PyException (domain @ '' is not found in the trie'')), s)"
  by (simp add: cow_remove_def domain_exits_def domain_exits_node_def exact_rule_def
           split: option.splits)

theorem cow_remove_absent_raises_witness:
  "exact_rule (root_node x_trie) ''y.com'' = None \<and>
   cow_remove x_trie ''y.com'' (Some ''block'')
     = (Inl (PyException ''y.com is not found in the trie''), x_trie) \<and>
   exact_rule (root_node x_trie) ''com'' = None \<and>
   cow_remove x_trie ''com'' None
     = (Inl (PyException ''com is not found in the trie''), x_trie)"
proof -
  have absent: "exact_rule (root_node x_trie) ''y.com'' = None"
    by (simp add: trie_defs x_trie_def exact_rule_def)
  have bare: "exact_rule (root_node x_trie) ''com'' = None"
    by (simp add: trie_defs x_trie_def exact_rule_def)
  show ?thesis
    using absent bare
      cow_remove_absent_raises [OF absent, of "Some ''block''"]
      cow_remove_absent_raises [OF bare, of None]
    by simp
qed

text \<open>
  C5. Directive exclusivity fails at startup. With the configuration lines
  \<open>block=/x.com/\<close> and \<open>route=/x.com/10.0.0.1\<close> the parsers fill \<open>block_rule\<close> and
  \<open>route_rule\<close> with one rule each; \<open>_merge_rules\<close> merges the second into the first
  with \<open>|=\<close> and removes nothing, and \<open>build_domain_trie\<close> inserts the result: the rule
  stored for \<open>x.com\<close> contains both \<open>block\<close> and \<open>route\<close>.
\<close>

theorem merge_rules_keeps_block_and_route:
  "(case merge_rules [] [] [] [block_rule_for ''x.com'']
           [route_rule_for ''x.com'' ''10.0.0.1''] of
      Inl e \<Rightarrow> None
    | Inr rs \<Rightarrow>
        (case build_domain_trie new_domain_trie rs of
           (s, err) \<Rightarrow>
             Some (rs, err, map_sum id fst (lookup s ''x.com''),
                   map_sum id (\<lambda>p. dict_in ''block'' (fst p) \<and> dict_in ''route'' (fst p))
                     (lookup s ''x.com''))))
   = Some ([[(''domain'', Str ''x.com''), (''block'', Str []), (''dbr'', Bool True),
             (''route'', Str ''10.0.0.1'')]],
           None,
           Inr [(''domain'', Str ''x.com''), (''block'', Str []), (''dbr'', Bool True),
                (''route'', Str ''10.0.0.1'')],
           Inr True)"
  by (simp add: merge_rules_def trie_defs)

text \<open>
  The runtime path does resolve the conflict: \<open>cow_insert\<close> of the route rule over the
  stored block rule removes \<open>block\<close>.
\<close>

lemma cow_insert_resolves_conflict:
  "(case cow_insert x_trie ''x.com'' (route_rule_for ''x.com'' ''10.0.0.1'') of
      Inl e \<Rightarrow> None
    | Inr s \<Rightarrow> Some (map_sum id fst (lookup s ''x.com'')))
   = Some (Inr [(''domain'', Str ''x.com''), (''dbr'', Bool True),
                (''route'', Str ''10.0.0.1'')])"
  by (simp add: trie_defs x_trie_def)

section \<open>The effect of the runtime mutations on the store\<close>







section \<open>Properties of the forwarder\<close>

lemma forward_query_all_fail:
  "\<not> is_response query \<Longrightarrow> \<forall>u\<in>set ups. net u = None \<Longrightarrow>
   forward_query net query ups
     = Inr \<lparr>msg_id = msg_id query, is_response = True, rcode = SERVFAIL,
            questions = questions query, answer = []\<rparr>"
  by (induction ups) (simp_all add: make_response_def)

text \<open>
  C10. \<open>_add_cache\<close> leaves the forwarder, and so the cache, as it was whenever the rcode
  of the response is not NOERROR, whatever TTL is given. In particular the response that
  \<open>_forward_query\<close> makes when every upstream fails is a SERVFAIL and is not stored, and
  an NXDOMAIN answer is not stored.
\<close>

theorem add_cache_skips_errors:
  "(rcode response \<noteq> NOERROR \<longrightarrow> add_cache f qname qt response t now = f) \<and>
   (\<not> is_response query \<and> (\<forall>u\<in>set ups. net u = None) \<longrightarrow>
      (\<exists>resp. forward_query net query ups = Inr resp \<and> rcode resp = SERVFAIL \<and>
              add_cache f qname qt resp t now = f)) \<and>
   add_cache f qname qt (response\<lparr>rcode := NXDOMAIN\<rparr>) t now = f"
  by (simp add: add_cache_def forward_query_all_fail)

theorem add_cache_skips_errors_witness:
  "rcode (two_rrsets\<lparr>rcode := SERVFAIL\<rparr>) \<noteq> NOERROR \<and>
   add_cache (new_forwarder [''8.8.8.8'']) ''example.com'' rdatatype_A
       (two_rrsets\<lparr>rcode := SERVFAIL\<rparr>) (- 1) 1000
     = new_forwarder [''8.8.8.8''] \<and>
   \<not> is_response (a_query ''example.com.'') \<and>
   (\<exists>resp. forward_query (\<lambda>u. None) (a_query ''example.com.'') [''8.8.8.8'', ''1.1.1.1'']
             = Inr resp \<and>
           rcode resp = SERVFAIL \<and>
           add_cache (new_forwarder [''8.8.8.8'']) ''example.com'' rdatatype_A resp (- 1) 1000
             = new_forwarder [''8.8.8.8'']) \<and>
   add_cache (new_forwarder [''8.8.8.8'']) ''example.com'' rdatatype_A
       (two_rrsets\<lparr>rcode := NXDOMAIN\<rparr>) (- 1) 1000
     = new_forwarder [''8.8.8.8'']"
proof -
  have h1: "rcode (two_rrsets\<lparr>rcode := SERVFAIL\<rparr>) \<noteq> NOERROR"
    by simp
  have h2: "\<not> is_response (a_query ''example.com.'')"
    by (simp add: a_query_def)
  have h3: "\<forall>u\<in>set [''8.8.8.8'', ''1.1.1.1'']. (\<lambda>u. None :: message option) u = None"
    by simp
  note inst = add_cache_skips_errors
    [of "two_rrsets\<lparr>rcode := SERVFAIL\<rparr>" "new_forwarder [''8.8.8.8'']" "''example.com''"
        rdatatype_A "- 1" 1000 "a_query ''example.com.''" "[''8.8.8.8'', ''1.1.1.1'']"
        "\<lambda>u. None"]
  from inst h1 have c1: "add_cache (new_forwarder [''8.8.8.8'']) ''example.com'' rdatatype_A
       (two_rrsets\<lparr>rcode := SERVFAIL\<rparr>) (- 1) 1000 = new_forwarder [''8.8.8.8'']"
    by blast
  from inst h2 h3 have c2: "\<exists>resp. forward_query (\<lambda>u. None) (a_query ''example.com.'')
             [''8.8.8.8'', ''1.1.1.1''] = Inr resp \<and>
           rcode resp = SERVFAIL \<and>
           add_cache (new_forwarder [''8.8.8.8'']) ''example.com'' rdatatype_A resp (- 1) 1000
             = new_forwarder [''8.8.8.8'']"
    by blast
  have c3: "add_cache (new_forwarder [''8.8.8.8'']) ''example.com'' rdatatype_A
       (two_rrsets\<lparr>rcode := NXDOMAIN\<rparr>) (- 1) 1000 = new_forwarder [''8.8.8.8'']"
    by (simp add: add_cache_def)
  show ?thesis
    by (intro conjI h1 c1 h2 c2 c3)
qed








lemma resolve_and_reply_block:
  assumes "dict_in ''block'' r" and "\<not> is_response query"
  shows "sent (resolve_and_reply f query qname qt r net now)
         = [\<lparr>msg_id = msg_id query, is_response = True, rcode = NXDOMAIN,
             questions = questions query, answer = []\<rparr>]"
  using assms
  by (simp add: resolve_and_reply_def make_NXDOMAIN_response_def make_response_def Let_def
           split: sum.splits option.splits)

text \<open>
  C3. For every A query whose matched rule contains \<open>block\<close>, the datagrams that
  \<open>handle_request\<close> sends to the client are exactly one: the NXDOMAIN response made from
  the query. This holds for every cache (also one with an entry for the name and type),
  for every answer or failure of the upstreams, and whether the callback is registered,
  returns or raises: neither the cached nor the upstream answer is sent.
\<close>

theorem block_sends_only_nxdomain:
  assumes "questions query = q # qs" and "qtype q = rdatatype_A"
    and "\<not> is_response query"
    and "lookup (trie_of f) (strip_dot (name_text q)) = Inr (r, node)"
    and "dict_in ''block'' r"
  shows "sent (handle_request f (Some query) net now)
         = [\<lparr>msg_id = msg_id query, is_response = True, rcode = NXDOMAIN,
             questions = questions query, answer = []\<rparr>]"
proof -
  obtain cached c1
    where cg: "cache_get (cache f) (strip_dot (name_text q), qtype q) now = (cached, c1)"
    by (cases "cache_get (cache f) (strip_dot (name_text q), qtype q) now")
  have "handle_request f (Some query) net now
        = resolve_and_reply (f\<lparr>cache := c1\<rparr>) query (strip_dot (name_text q)) (qtype q) r
            net now"
    using assms cg
    by (cases cached)
       (simp_all add: handle_request_def Let_def rdatatype_A_def rdatatype_AAAA_def)
  then show ?thesis
    using resolve_and_reply_block [OF assms(5) assms(3)] by simp
qed

theorem block_sends_only_nxdomain_witness:
  "questions (a_query ''x.com.'') = [\<lparr>name_text = ''x.com.'', qtype = rdatatype_A\<rparr>] \<and>
   \<not> is_response (a_query ''x.com.'') \<and>
   lookup (trie_of blocking_forwarder) (strip_dot ''x.com.'')
     = Inr (block_rule_for ''x.com'', [''com'', ''x'']) \<and>
   dict_in ''block'' (block_rule_for ''x.com'') \<and>
   fst (cache_get (cache blocking_forwarder) (''x.com'', rdatatype_A) 1000)
     = Some (x_answer, 900) \<and>
   sent (handle_request blocking_forwarder (Some (a_query ''x.com.''))
           (\<lambda>u. Some x_answer) 1000)
     = [\<lparr>msg_id = 4660, is_response = True, rcode = NXDOMAIN,
         questions = [\<lparr>name_text = ''x.com.'', qtype = rdatatype_A\<rparr>], answer = []\<rparr>]"
proof -
  have h1: "questions (a_query ''x.com.'')
            = \<lparr>name_text = ''x.com.'', qtype = rdatatype_A\<rparr> # []"
    by (simp add: a_query_def)
  have h2: "qtype \<lparr>name_text = ''x.com.'', qtype = rdatatype_A\<rparr> = rdatatype_A"
    by simp
  have h3: "\<not> is_response (a_query ''x.com.'')"
    by (simp add: a_query_def)
  have h4: "lookup (trie_of blocking_forwarder)
              (strip_dot (name_text \<lparr>name_text = ''x.com.'', qtype = rdatatype_A\<rparr>))
            = Inr (block_rule_for ''x.com'', [''com'', ''x''])"
    by (simp add: blocking_forwarder_def new_forwarder_def strip_dot_def trie_defs x_trie_def)
  have h5: "dict_in ''block'' (block_rule_for ''x.com'')"
    by (simp add: dict_in_def block_rule_for_def)
  have hit: "fst (cache_get (cache blocking_forwarder) (''x.com'', rdatatype_A) 1000)
             = Some (x_answer, 900)"
    by (simp add: blocking_forwarder_def new_forwarder_def cache_get_def)
  have c: "sent (handle_request blocking_forwarder (Some (a_query ''x.com.''))
                   (\<lambda>u. Some x_answer) 1000)
           = [\<lparr>msg_id = 4660, is_response = True, rcode = NXDOMAIN,
               questions = [\<lparr>name_text = ''x.com.'', qtype = rdatatype_A\<rparr>],
               answer = []\<rparr>]"
    using block_sends_only_nxdomain [OF h1 h2 h3 h4 h5, of "\<lambda>u. Some x_answer" 1000]
    by (simp add: a_query_def)
  from h4 have h4': "lookup (trie_of blocking_forwarder) (strip_dot ''x.com.'')
                     = Inr (block_rule_for ''x.com'', [''com'', ''x''])"
    by simp
  show ?thesis
    using h1 by (intro conjI h3 h4' h5 hit c) simp
qed

section \<open>Properties of the policy service\<close>

text \<open>
  C9, as stated, fails: \<open>::1\<close> is not an IPv4 literal, and it validates as the value of
  a route rule, because \<open>_is_valid_ip\<close> asks \<open>ipaddress.ip_address\<close>, which also accepts
  IPv6. \<open>add_rule\<close> returns \<open>True\<close> and the trie holds a route to \<open>::1\<close>.
\<close>

theorem validate_accepts_ipv6_counterexample:
  "\<not> ipv4_ok ''::1'' \<and>
   validate_rule_params ''route'' ''x.com'' ''::1'' \<and>
   fst (add_rule new_domain_trie ''route'' ''x.com'' ''::1'') = Inr True \<and>
   map_sum id fst (lookup (snd (add_rule new_domain_trie ''route'' ''x.com'' ''::1'')) ''x.com'')
     = Inr [(''domain'', Str ''x.com''), (''route'', Str ''::1''), (''dbr'', Bool True)]"
  by code_simp

text \<open>
  C9, amended. REST rule addition validates the value of a route, server or address
  directive as an IP address literal, IPv4 or IPv6: for a value that is neither,
  \<open>add_rule\<close> returns \<open>False\<close> and leaves the trie as it was. The parameters validate
  exactly when the domain is valid, and the directive is \<open>block\<close> (whatever the value
  is, also none) or one of route, server and address with an IPv4 or IPv6 value.
\<close>

theorem add_rule_validates_ip:
  "(directive \<in> set [''route'', ''server'', ''address''] \<and> \<not> ipv4_ok val \<and> \<not> ipv6_ok val
      \<longrightarrow> add_rule s directive domain val = (Inr False, s)) \<and>
   (validate_rule_params directive domain val \<longleftrightarrow>
      domain \<noteq> [] \<and> is_valid_domain domain \<and>
      (directive = ''block'' \<or>
       directive \<in> set [''route'', ''server'', ''address''] \<and> (ipv4_ok val \<or> ipv6_ok val))) \<and>
   (domain \<noteq> [] \<and> is_valid_domain domain \<longrightarrow> validate_rule_params ''block'' domain val)"
  by (auto simp: add_rule_def validate_rule_params_def is_valid_ip_def)

theorem add_rule_validates_ip_witness:
  "\<not> ipv4_ok ''gateway'' \<and> \<not> ipv6_ok ''gateway'' \<and>
   add_rule x_trie ''route'' ''x.com'' ''gateway'' = (Inr False, x_trie) \<and>
   add_rule x_trie ''address'' ''x.com'' ''10.0.0.256'' = (Inr False, x_trie) \<and>
   is_valid_domain ''x.com'' \<and>
   validate_rule_params ''block'' ''x.com'' '''' \<and>
   validate_rule_params ''server'' ''x.com'' ''8.8.8.8''"
proof -
  have g4: "\<not> ipv4_ok ''gateway''" by code_simp
  have g6: "\<not> ipv6_ok ''gateway''" by code_simp
  have b4: "\<not> ipv4_ok ''10.0.0.256''" by code_simp
  have b6: "\<not> ipv6_ok ''10.0.0.256''" by code_simp
  have d: "is_valid_domain ''x.com''" by code_simp
  have v4: "ipv4_ok ''8.8.8.8''" by code_simp
  have c1: "add_rule x_trie ''route'' ''x.com'' ''gateway'' = (Inr False, x_trie)"
    using add_rule_validates_ip [of "''route''" "''gateway''" x_trie "''x.com''"] g4 g6
    by simp
  have c2: "add_rule x_trie ''address'' ''x.com'' ''10.0.0.256'' = (Inr False, x_trie)"
    using add_rule_validates_ip [of "''address''" "''10.0.0.256''" x_trie "''x.com''"] b4 b6
    by simp
  have c3: "validate_rule_params ''block'' ''x.com'' ''''"
    using add_rule_validates_ip [of "''block''" "''''" x_trie "''x.com''"] d
    by simp
  have c4: "validate_rule_params ''server'' ''x.com'' ''8.8.8.8''"
    using add_rule_validates_ip [of "''server''" "''8.8.8.8''" x_trie "''x.com''"] d v4
    by simp
  show ?thesis
    by (intro conjI g4 g6 c1 c2 d c3 c4)
qed

section \<open>Purging the cache\<close>

lemma map_of_filter_key:
  "map_of (filter (\<lambda>p. Q (fst p)) xs) k = (if Q k then map_of xs k else None)"
  by (induction xs) auto

lemma purge_loop_step:
  "purge_loop (key # rest) c now
   = purge_loop rest (if purged c now key then cache_del c key else c) now"
  by (simp add: purged_def split: option.splits)

lemma purged_cache_del:
  "purged (cache_del c key) now k = (k \<noteq> key \<and> purged c now k)"
  using map_of_filter_key [of "\<lambda>x. x \<noteq> key" "items c" k]
  by (simp add: purged_def cache_del_def drop_key_def)

lemma purge_loop_items:
  "items (purge_loop keys c now)
   = filter (\<lambda>p. \<not> (fst p \<in> set keys \<and> purged c now (fst p))) (items c)"
proof (induction keys arbitrary: c)
  case Nil
  show ?case by simp
next
  case (Cons key rest)
  show ?case
  proof (cases "purged c now key")
    case False
    have "items (purge_loop (key # rest) c now)
          = filter (\<lambda>p. \<not> (fst p \<in> set rest \<and> purged c now (fst p))) (items c)"
      using False by (simp only: purge_loop_step Cons.IH if_False)
    also have "\<dots> = filter (\<lambda>p. \<not> (fst p \<in> set (key # rest) \<and> purged c now (fst p)))
                       (items c)"
      using False by (intro filter_cong refl) auto
    finally show ?thesis .
  next
    case True
    have "items (purge_loop (key # rest) c now)
          = filter (\<lambda>p. \<not> (fst p \<in> set rest \<and> purged (cache_del c key) now (fst p)))
              (items (cache_del c key))"
      using True by (simp only: purge_loop_step Cons.IH if_True)
    also have "\<dots> = filter (\<lambda>p. \<not> (fst p \<in> set rest \<and> purged (cache_del c key) now (fst p)))
                       (filter (\<lambda>p. fst p \<noteq> key) (items c))"
      by (simp add: cache_del_def drop_key_def)
    also have "\<dots> = filter (\<lambda>p. \<not> (fst p \<in> set (key # rest) \<and> purged c now (fst p)))
                       (items c)"
      unfolding filter_filter
      using True by (intro filter_cong refl) (auto simp: purged_cache_del)
    finally show ?thesis .
  qed
qed

lemma purge_cache_items:
  "items (cache (purge_cache f now))
   = filter (\<lambda>p. \<not> purged (cache f) now (fst p)) (items (cache f))"
proof -
  have "items (cache (purge_cache f now))
        = filter (\<lambda>p. \<not> (fst p \<in> set (map fst (items (cache f))) \<and>
                          purged (cache f) now (fst p)))
            (items (cache f))"
    by (simp add: purge_cache_def purge_loop_items)
  also have "\<dots> = filter (\<lambda>p. \<not> purged (cache f) now (fst p)) (items (cache f))"
    by (intro filter_cong refl) auto
  finally show ?thesis .
qed

lemma purge_cache_map_of:
  "map_of (items (cache (purge_cache f now))) key
   = (if purged (cache f) now key then None else map_of (items (cache f)) key)"
  using map_of_filter_key [of "\<lambda>k. \<not> purged (cache f) now k" "items (cache f)" key]
  by (simp add: purge_cache_items)

text \<open>
  C6. \<open>purge_cache\<close> returns, and at any time from then on, until something else is
  stored, the cache answers for a key exactly when it answered before with an entry whose
  TTL is the sentinel \<open>2147483647\<close>, and then with that entry: every pinned entry is
  preserved and every other entry is gone.
\<close>

theorem purge_cache_keeps_exactly_pinned:
  assumes "now \<le> t"
  shows "fst (cache_get (cache (purge_cache f now)) key t)
         = (case fst (cache_get (cache f) key t) of
              None \<Rightarrow> None
            | Some val \<Rightarrow> if snd val = MAX_DNS_TTL then Some val else None)"
proof (cases "map_of (items (cache f)) key")
  case None
  then show ?thesis
    by (simp add: cache_get_def purge_cache_map_of)
next
  case (Some entry)
  obtain val expires where entry: "entry = (val, expires)" by (cases entry)
  show ?thesis
    using Some entry assms
    by (auto simp: cache_get_def purge_cache_map_of purged_def)
qed
theorem purge_cache_keeps_exactly_pinned_witness:
  "(1000 :: real) \<le> 1500 \<and>
   fst (cache_get (cache mixed_forwarder) (''x.com'', rdatatype_A) 1500)
     = Some (x_answer, 900) \<and>
   fst (cache_get (cache mixed_forwarder) (''router.my'', rdatatype_A) 1500)
     = Some (x_answer, MAX_DNS_TTL) \<and>
   fst (cache_get (cache (purge_cache mixed_forwarder 1000)) (''x.com'', rdatatype_A) 1500)
     = None \<and>
   fst (cache_get (cache (purge_cache mixed_forwarder 1000)) (''router.my'', rdatatype_A) 1500)
     = Some (x_answer, MAX_DNS_TTL)"
proof -
  have le: "(1000 :: real) \<le> 1500"
    by simp
  have items: "items (cache mixed_forwarder)
        = [((''router.my'', rdatatype_A), (x_answer, MAX_DNS_TTL), 1000 + 2147483647),
           ((''x.com'', rdatatype_A), (x_answer, 900), 1900)]"
    by (simp add: mixed_forwarder_def add_cache_def new_forwarder_def cache_set_def my_ttu_def
          drop_key_def x_answer_def MAX_DNS_TTL_def rdatatype_A_def)
  have b1: "fst (cache_get (cache mixed_forwarder) (''x.com'', rdatatype_A) 1500)
            = Some (x_answer, 900)"
    by (simp add: cache_get_def items)
  have b2: "fst (cache_get (cache mixed_forwarder) (''router.my'', rdatatype_A) 1500)
            = Some (x_answer, MAX_DNS_TTL)"
    by (simp add: cache_get_def items)
  have a1: "fst (cache_get (cache (purge_cache mixed_forwarder 1000))
                   (''x.com'', rdatatype_A) 1500) = None"
    using purge_cache_keeps_exactly_pinned
            [OF le, of mixed_forwarder "(''x.com'', rdatatype_A)"]
    by (simp add: b1 MAX_DNS_TTL_def)
  have a2: "fst (cache_get (cache (purge_cache mixed_forwarder 1000))
                   (''router.my'', rdatatype_A) 1500) = Some (x_answer, MAX_DNS_TTL)"
    using purge_cache_keeps_exactly_pinned
            [OF le, of mixed_forwarder "(''router.my'', rdatatype_A)"]
    by (simp add: b2)
  show ?thesis
    by (intro conjI le b1 b2 a1 a2)
qed

end
